theory Spec2Isabelle
  imports
    Complex_Main
    "HOL-Library.Char_ord"
    "HOL-Library.List_Lexorder"
    "HOL-Library.Product_Lexorder"
    "HOL-Library.AList"
begin

section \<open>Double-precision values\<close>

text \<open>
  The price, cost, salary and growth columns of the pipeline are pandas \<^verbatim>\<open>float64\<close>
  columns. A cell is a finite binary64 number, an infinity, or NaN, and NaN is also how
  pandas stores a missing value (\<^verbatim>\<open>isna\<close>, \<^verbatim>\<open>dropna\<close>, \<^verbatim>\<open>notna\<close>).
  A finite value is kept as the rational number it denotes. Every arithmetic operation
  rounds its exact result to the nearest binary64 number, ties to even, with gradual
  underflow and overflow to infinity; division by zero gives an infinity or NaN and never
  raises, as numpy does. The sign of a zero is not modelled: \<open>Finite 0\<close> stands for
  \<^verbatim>\<open>0.0\<close>.
\<close>

datatype fval = Finite rat | PosInf | NegInf | NaN

definition pow2 :: "int \<Rightarrow> rat" where
  "pow2 e = (if 0 \<le> e then of_int (2 ^ nat e) else 1 / of_int (2 ^ nat (- e)))"

function bit_length :: "int \<Rightarrow> int" where
  "bit_length n = (if n \<le> 0 then 0 else 1 + bit_length (n div 2))"
  by pat_completeness auto
termination
  by (relation "measure nat") auto

text \<open>\<open>ilog2 x\<close> is the binary exponent of a non-zero \<open>x\<close>: \<open>2 ^ e \<le> \<bar>x\<bar> < 2 ^ (e + 1)\<close>.\<close>

definition ilog2 :: "rat \<Rightarrow> int" where
  "ilog2 x = (let (a, b) = quotient_of \<bar>x\<bar>;
                  e = bit_length a - bit_length b
              in if pow2 e \<le> \<bar>x\<bar> then e else e - 1)"

definition round_half_even :: "rat \<Rightarrow> int" where
  "round_half_even x = (let f = \<lfloor>x\<rfloor>; d = x - of_int f in
     if d < 1 / 2 then f else if 1 / 2 < d then f + 1 else if even f then f else f + 1)"

text \<open>
  Rounding to binary64: 53 significant bits, exponents from \<open>-1022\<close> (below it the
  spacing stays \<open>2 ^ -1074\<close>) to \<open>1023\<close> (above it the result is an infinity).
\<close>

definition round_double :: "rat \<Rightarrow> fval" where
  "round_double x = (if x = 0 then Finite 0 else
     let e = max (ilog2 x) (- 1022);
         m = round_half_even (x / pow2 (e - 52))
     in if 1023 < e \<or> (e = 1023 \<and> 2 ^ 53 \<le> \<bar>m\<bar>)
        then (if 0 < x then PosInf else NegInf)
        else Finite (of_int m * pow2 (e - 52)))"

definition inf_of_sign :: "bool \<Rightarrow> fval" where
  "inf_of_sign positive = (if positive then PosInf else NegInf)"

fun fneg :: "fval \<Rightarrow> fval" where
  "fneg (Finite a) = Finite (- a)"
| "fneg PosInf = NegInf"
| "fneg NegInf = PosInf"
| "fneg NaN = NaN"

fun fadd :: "fval \<Rightarrow> fval \<Rightarrow> fval" where
  "fadd NaN y = NaN"
| "fadd (Finite a) NaN = NaN"
| "fadd PosInf NaN = NaN"
| "fadd NegInf NaN = NaN"
| "fadd (Finite a) (Finite b) = round_double (a + b)"
| "fadd (Finite a) PosInf = PosInf"
| "fadd (Finite a) NegInf = NegInf"
| "fadd PosInf (Finite b) = PosInf"
| "fadd NegInf (Finite b) = NegInf"
| "fadd PosInf PosInf = PosInf"
| "fadd NegInf NegInf = NegInf"
| "fadd PosInf NegInf = NaN"
| "fadd NegInf PosInf = NaN"

definition fsub :: "fval \<Rightarrow> fval \<Rightarrow> fval" where
  "fsub x y = fadd x (fneg y)"

fun fmul :: "fval \<Rightarrow> fval \<Rightarrow> fval" where
  "fmul NaN y = NaN"
| "fmul (Finite a) NaN = NaN"
| "fmul PosInf NaN = NaN"
| "fmul NegInf NaN = NaN"
| "fmul (Finite a) (Finite b) = round_double (a * b)"
| "fmul (Finite a) PosInf = (if a = 0 then NaN else inf_of_sign (0 < a))"
| "fmul (Finite a) NegInf = (if a = 0 then NaN else inf_of_sign (a < 0))"
| "fmul PosInf (Finite b) = (if b = 0 then NaN else inf_of_sign (0 < b))"
| "fmul NegInf (Finite b) = (if b = 0 then NaN else inf_of_sign (b < 0))"
| "fmul PosInf PosInf = PosInf"
| "fmul PosInf NegInf = NegInf"
| "fmul NegInf PosInf = NegInf"
| "fmul NegInf NegInf = PosInf"

fun fdiv :: "fval \<Rightarrow> fval \<Rightarrow> fval" where
  "fdiv NaN y = NaN"
| "fdiv (Finite a) NaN = NaN"
| "fdiv PosInf NaN = NaN"
| "fdiv NegInf NaN = NaN"
| "fdiv (Finite a) (Finite b) =
     (if b = 0 then (if a = 0 then NaN else inf_of_sign (0 < a))
      else round_double (a / b))"
| "fdiv (Finite a) PosInf = Finite 0"
| "fdiv (Finite a) NegInf = Finite 0"
| "fdiv PosInf (Finite b) = inf_of_sign (0 \<le> b)"
| "fdiv NegInf (Finite b) = inf_of_sign (b < 0)"
| "fdiv PosInf PosInf = NaN"
| "fdiv PosInf NegInf = NaN"
| "fdiv NegInf PosInf = NaN"
| "fdiv NegInf NegInf = NaN"

text \<open>The float literals of the source: each is the binary64 number nearest to its decimal.\<close>

definition lit_0_05 :: fval where
  "lit_0_05 = round_double (5 / 100)"

definition lit_0_30 :: fval where
  "lit_0_30 = round_double (30 / 100)"

definition lit_100 :: fval where
  "lit_100 = Finite 100"

definition lit_1 :: fval where
  "lit_1 = Finite 1"

text \<open>
  The sum of the non-missing values of a group is computed by the library (a compensated
  summation whose rounding the source does not fix), so it is a parameter of the model.
  \<open>naive_sum\<close>, adding from left to right, is one instance.
\<close>

type_synonym summation = "fval list \<Rightarrow> fval"

definition naive_sum :: summation where
  "naive_sum xs = foldl fadd (Finite 0) xs"

text \<open>\<^verbatim>\<open>mean\<close> of a group skips missing values; a group with none has a missing mean.\<close>

definition mean_skipna :: "summation \<Rightarrow> fval list \<Rightarrow> fval" where
  "mean_skipna fsum vs =
     (let xs = filter (\<lambda>v. v \<noteq> NaN) vs
      in if xs = [] then NaN else fdiv (fsum xs) (Finite (of_nat (length xs))))"

section \<open>Tables\<close>

text \<open>
  A data frame is a list of rows; a row is a record of its columns. Columns that several
  tables share (\<^verbatim>\<open>county_name\<close>, \<^verbatim>\<open>year\<close>, the region key and the two tier
  prices) are declared once and the tables extend them. A text cell read from a file is
  a string or missing (\<open>None\<close>).
\<close>

record named_row =
  county_name :: "string option"

record yearly_row = named_row +
  year :: int

record price_row = yearly_row +
  RegionID :: int
  bottom_tier_price :: fval
  top_tier_price :: fval

record datetime =
  dt_year :: int
  dt_month :: int
  dt_day :: int

record housing_row = price_row +
  RegionName :: "string option"
  StateName :: "string option"
  State :: "string option"
  date :: datetime
  month :: int

record affordability_row = price_row +
  bottom_tier_annual_cost :: fval
  top_tier_annual_cost :: fval
  bottom_tier_min_salary :: fval
  top_tier_min_salary :: fval

record trend_row = price_row +
  bottom_tier_growth :: fval
  top_tier_growth :: fval

text \<open>
  A price-tier CSV: the four identifier columns of each row, and the cells of its other
  columns by header. A header with no cell in a row reads as missing.
\<close>

record wide_row =
  csv_RegionID :: int
  csv_RegionName :: "string option"
  csv_StateName :: "string option"
  csv_State :: "string option"
  cells :: "(string \<times> fval) list"

record wide_table =
  columns :: "string list"
  rows :: "wide_row list"

datatype error = IndexError | ValueError | AttributeError

section \<open>Reshaping the housing prices (\<^verbatim>\<open>03_housing_and_population_cleaning.py\<close>)\<close>

definition cell :: "wide_row \<Rightarrow> string \<Rightarrow> fval" where
  "cell r c = (case map_of (cells r) c of Some v \<Rightarrow> v | None \<Rightarrow> NaN)"

text \<open>\<^verbatim>\<open>[col for col in df.columns if '-' in str(col) and len(str(col)) == 10]\<close>\<close>

definition date_cols :: "wide_table \<Rightarrow> string list" where
  "date_cols df = filter (\<lambda>col. CHR ''-'' \<in> set col \<and> length col = 10) (columns df)"

text \<open>
  \<^verbatim>\<open>melt\<close>: one row per value column and source row, column by column; cells that are
  missing are kept.
\<close>

type_synonym melted_row = "wide_row \<times> string \<times> fval"

definition melt :: "wide_table \<Rightarrow> string list \<Rightarrow> melted_row list" where
  "melt df value_vars = concat (map (\<lambda>c. map (\<lambda>r. (r, c, cell r c)) (rows df)) value_vars)"

text \<open>
  \<^verbatim>\<open>bottom_melted.merge(top_melted[['RegionID', 'date', 'top_tier_price']],
  on=['RegionID', 'date'], how='outer')\<close>. A merged row is its key, the three name columns
  (which only the left table carries), and the two prices. A left row is paired with every
  right row of its key, or with a missing top price when there is none; a right row whose
  key no left row has comes with missing names and a missing bottom price. An outer merge
  orders its result by key.
\<close>

type_synonym merged_row =
  "(int \<times> string) \<times> (string option \<times> string option \<times> string option) \<times> fval \<times> fval"

definition merge_outer :: "melted_row list \<Rightarrow> (int \<times> string \<times> fval) list \<Rightarrow> merged_row list" where
  "merge_outer left right =
     (let from_left = concat (map (\<lambda>(r, c, b).
            let ms = filter (\<lambda>(i, c', t). i = csv_RegionID r \<and> c' = c) right;
                names = (csv_RegionName r, csv_StateName r, csv_State r)
            in if ms = [] then [((csv_RegionID r, c), names, b, NaN)]
               else map (\<lambda>(i, c', t). ((csv_RegionID r, c), names, b, t)) ms) left);
          right_only = map (\<lambda>(i, c, t). ((i, c), (None, None, None), NaN, t))
            (filter (\<lambda>(i, c, t). \<not> list_ex (\<lambda>(r, c', b). csv_RegionID r = i \<and> c' = c) left) right)
      in sort_key fst (from_left @ right_only))"

text \<open>
  \<^verbatim>\<open>pd.to_datetime\<close> is the library's parser and a parameter of the model: \<open>None\<close> is
  the header it rejects, on which it raises. \<open>year\<close>, \<open>month\<close> and \<open>county_name\<close> are
  the derived columns.
\<close>

definition to_housing_row :: "(string \<Rightarrow> datetime option) \<Rightarrow> merged_row \<Rightarrow> housing_row option" where
  "to_housing_row to_datetime m =
     (case m of ((i, c), (n, sn, st), b, t) \<Rightarrow>
        map_option (\<lambda>d. \<lparr>county_name = n, year = dt_year d, RegionID = i,
                          bottom_tier_price = b, top_tier_price = t,
                          RegionName = n, StateName = sn, State = st,
                          date = d, month = dt_month d\<rparr>) (to_datetime c))"

text \<open>
  \<^verbatim>\<open>reshape_housing_data\<close>. The diagnostic print reads \<^verbatim>\<open>bottom_date_cols[0]\<close>, which
  raises when the bottom table has no date column. The last step is
  \<^verbatim>\<open>dropna(subset=['bottom_tier_price', 'top_tier_price'], how='all')\<close>.
\<close>

definition reshape_housing_data ::
    "(string \<Rightarrow> datetime option) \<Rightarrow> wide_table \<Rightarrow> wide_table \<Rightarrow> error + housing_row list" where
  "reshape_housing_data to_datetime bottom_df top_df =
     (let bottom_date_cols = date_cols bottom_df;
          top_date_cols = date_cols top_df
      in if bottom_date_cols = [] then Inl IndexError
         else
           let bottom_melted = melt bottom_df bottom_date_cols;
               top_melted = melt top_df top_date_cols;
               housing_prices = merge_outer bottom_melted
                 (map (\<lambda>(r, c, t). (csv_RegionID r, c, t)) top_melted)
           in case those (map (to_housing_row to_datetime) housing_prices) of
                None \<Rightarrow> Inl ValueError
              | Some hs \<Rightarrow>
                  Inr (filter (\<lambda>h. \<not> (bottom_tier_price h = NaN \<and> top_tier_price h = NaN)) hs))"

section \<open>Annual means, affordability and growth\<close>

text \<open>
  \<^verbatim>\<open>housing_df.groupby(['RegionID', 'county_name', 'year']).agg({... 'mean'}).reset_index()\<close>:
  one row per key, in key order. A row whose \<^verbatim>\<open>county_name\<close> is missing belongs to no
  group.
\<close>

definition group_key :: "'a price_row_scheme \<Rightarrow> int \<times> string \<times> int" where
  "group_key r = (RegionID r, case county_name r of Some n \<Rightarrow> n | None \<Rightarrow> [], year r)"

definition annual_means :: "summation \<Rightarrow> housing_row list \<Rightarrow> price_row list" where
  "annual_means fsum housing_df =
     (let keyed = filter (\<lambda>r. county_name r \<noteq> None) housing_df
      in map (\<lambda>k. case k of (i, n, y) \<Rightarrow>
                let grp = filter (\<lambda>r. group_key r = k) keyed
                in \<lparr>county_name = Some n, year = y, RegionID = i,
                    bottom_tier_price = mean_skipna fsum (map bottom_tier_price grp),
                    top_tier_price = mean_skipna fsum (map top_tier_price grp)\<rparr>)
           (sort (remdups (map group_key keyed))))"

text \<open>
  \<^verbatim>\<open>calculate_affordability_metrics\<close>: the annual cost is the mean price times
  \<^verbatim>\<open>0.05\<close>, the minimum salary is the annual cost divided by \<^verbatim>\<open>0.30\<close>. The economic
  and county files that the function also reads are not used in what it computes.
\<close>

definition affordability_of :: "price_row \<Rightarrow> affordability_row" where
  "affordability_of r =
     (let bottom_cost = fmul (bottom_tier_price r) lit_0_05;
          top_cost = fmul (top_tier_price r) lit_0_05
      in \<lparr>county_name = county_name r, year = year r, RegionID = RegionID r,
          bottom_tier_price = bottom_tier_price r, top_tier_price = top_tier_price r,
          bottom_tier_annual_cost = bottom_cost, top_tier_annual_cost = top_cost,
          bottom_tier_min_salary = fdiv bottom_cost lit_0_30,
          top_tier_min_salary = fdiv top_cost lit_0_30\<rparr>)"

definition calculate_affordability_metrics :: "summation \<Rightarrow> housing_row list \<Rightarrow> affordability_row list" where
  "calculate_affordability_metrics fsum housing_df = map affordability_of (annual_means fsum housing_df)"

text \<open>
  \<^verbatim>\<open>groupby('RegionID')[col].pct_change()\<close>, over the rows in their order: the library
  divides each value by the previous value of the same region and subtracts \<^verbatim>\<open>1\<close>.
  \<open>prev\<close> holds the previous value of each region seen so far; the first row of a region
  has a missing previous value. Whether missing prices are first filled forward within the
  region is the library's default \<^verbatim>\<open>fill_method\<close> (forward fill in pandas 1 and 2,
  none in pandas 3): the flag \<open>ffill\<close>.
\<close>

fun pct_change :: "bool \<Rightarrow> (int \<Rightarrow> fval option) \<Rightarrow> (int \<times> fval) list \<Rightarrow> fval list" where
  "pct_change ffill prev [] = []"
| "pct_change ffill prev ((g, v) # xs) =
     (let shifted = (case prev g of Some p \<Rightarrow> p | None \<Rightarrow> NaN);
          filled = (if ffill \<and> v = NaN then shifted else v)
      in fsub (fdiv filled shifted) lit_1 # pct_change ffill (prev(g \<mapsto> filled)) xs)"

text \<open>The growth columns of an annual table that is already in \<^verbatim>\<open>(RegionID, year)\<close> order.\<close>

definition growth_columns :: "bool \<Rightarrow> price_row list \<Rightarrow> trend_row list" where
  "growth_columns ffill annual_trends =
     (let bottom = map (\<lambda>p. fmul p lit_100)
            (pct_change ffill Map.empty (map (\<lambda>r. (RegionID r, bottom_tier_price r)) annual_trends));
          top = map (\<lambda>p. fmul p lit_100)
            (pct_change ffill Map.empty (map (\<lambda>r. (RegionID r, top_tier_price r)) annual_trends))
      in map (\<lambda>(r, b, t).
            \<lparr>county_name = county_name r, year = year r, RegionID = RegionID r,
             bottom_tier_price = bottom_tier_price r, top_tier_price = top_tier_price r,
             bottom_tier_growth = b, top_tier_growth = t\<rparr>)
           (zip annual_trends (zip bottom top)))"

text \<open>\<^verbatim>\<open>create_annual_price_trends\<close>: annual means, \<^verbatim>\<open>sort_values(['RegionID', 'year'])\<close>, growth.\<close>

definition create_annual_price_trends :: "summation \<Rightarrow> bool \<Rightarrow> housing_row list \<Rightarrow> trend_row list" where
  "create_annual_price_trends fsum ffill housing_df =
     growth_columns ffill (sort_key (\<lambda>r. (RegionID r, year r)) (annual_means fsum housing_df))"

text \<open>
  For the proofs: the previous value of each region after a prefix of the rows has been
  processed by \<open>pct_change\<close>.
\<close>

fun run_prev :: "bool \<Rightarrow> (int \<Rightarrow> fval option) \<Rightarrow> (int \<times> fval) list \<Rightarrow> (int \<Rightarrow> fval option)" where
  "run_prev ffill prev [] = prev"
| "run_prev ffill prev ((g, v) # xs) =
     run_prev ffill (prev(g \<mapsto> (if ffill \<and> v = NaN then (case prev g of Some p \<Rightarrow> p | None \<Rightarrow> NaN) else v))) xs"

section \<open>Key normalisation\<close>

text \<open>
  A cell of a column that holds identifiers: an integer, a string, or missing. Strings are
  lists of characters of one byte each; the model follows Python on ASCII text.
\<close>

datatype raw_cell = IntCell int | StrCell string | Missing

definition digit_char :: "int \<Rightarrow> char" where
  "digit_char d = ''0123456789'' ! nat d"

function digits :: "int \<Rightarrow> string" where
  "digits n = (if n < 10 then [digit_char n] else digits (n div 10) @ [digit_char (n mod 10)])"
  by pat_completeness auto
termination
  by (relation "measure nat") auto

text \<open>\<^verbatim>\<open>str\<close> of an integer.\<close>

definition str_of_int :: "int \<Rightarrow> string" where
  "str_of_int i = (if i < 0 then CHR ''-'' # digits (- i) else digits i)"

text \<open>\<^verbatim>\<open>astype(str)\<close>, cell by cell: a missing cell becomes the text \<^verbatim>\<open>nan\<close>.\<close>

fun astype_str :: "raw_cell \<Rightarrow> string" where
  "astype_str (IntCell i) = str_of_int i"
| "astype_str (StrCell s) = s"
| "astype_str Missing = ''nan''"

text \<open>
  \<^verbatim>\<open>str.zfill\<close>: zeros are put on the left, after a leading sign, until the string has
  the width; a string that is long enough is returned as it is. (Older releases of the
  library pad on the left without looking for a sign; the two agree on every string that
  does not start with one.)
\<close>

definition zfill :: "nat \<Rightarrow> string \<Rightarrow> string" where
  "zfill width s =
     (if width \<le> length s then s
      else case s of
             [] \<Rightarrow> replicate width (CHR ''0'')
           | c # cs \<Rightarrow>
               if c = CHR ''+'' \<or> c = CHR ''-''
               then c # replicate (width - length s) (CHR ''0'') @ cs
               else replicate (width - length s) (CHR ''0'') @ s)"

text \<open>
  The FIPS normaliser is the expression \<^verbatim>\<open>.astype(str).str.zfill(5)\<close>, which
  \<^verbatim>\<open>clean_unemployment_data\<close> and \<^verbatim>\<open>check_and_fix_fips_codes\<close> both apply.
\<close>

definition normalize_fips :: "raw_cell \<Rightarrow> string" where
  "normalize_fips raw = zfill 5 (astype_str raw)"


text \<open>\<^verbatim>\<open>str.lower\<close>, \<^verbatim>\<open>str.strip\<close> and \<^verbatim>\<open>str.replace('.', '')\<close>.\<close>

definition is_upper :: "char \<Rightarrow> bool" where
  "is_upper c = (CHR ''A'' \<le> c \<and> c \<le> CHR ''Z'')"

definition lower_char :: "char \<Rightarrow> char" where
  "lower_char c = (if is_upper c then char_of (of_char c + (32 :: nat)) else c)"

definition lower :: "string \<Rightarrow> string" where
  "lower s = map lower_char s"

definition is_space :: "char \<Rightarrow> bool" where
  "is_space c = (c \<in> set [CHR 0x09, CHR 0x0A, CHR 0x0B, CHR 0x0C, CHR 0x0D,
                             CHR 0x1C, CHR 0x1D, CHR 0x1E, CHR 0x1F, CHR 0x20])"

definition strip :: "string \<Rightarrow> string" where
  "strip s = rev (dropWhile is_space (rev (dropWhile is_space s)))"

definition remove_periods :: "string \<Rightarrow> string" where
  "remove_periods s = filter (\<lambda>c. c \<noteq> CHR ''.'') s"

text \<open>
  The two county-name normalisers of \<^verbatim>\<open>04_fix_fips_codes.py\<close>:
  \<^verbatim>\<open>.str.lower().str.strip()\<close> for the mapping keys, the affordability table and the
  trend table, and \<^verbatim>\<open>.str.replace('.', '', regex=False).str.lower().str.strip()\<close> for
  the population table.
\<close>

definition clean_county_name :: "string \<Rightarrow> string" where
  "clean_county_name n = strip (lower n)"

definition clean_population_county_name :: "string \<Rightarrow> string" where
  "clean_population_county_name n = strip (lower (remove_periods n))"

section \<open>The county table (\<^verbatim>\<open>02_data_cleaning.py\<close>)\<close>


record 'f county = named_row +
  fips_code :: 'f
  state :: "string option"
  rural_urban_code :: raw_cell
  urban_influence_code :: raw_cell
  metro_status :: raw_cell


section \<open>Attaching FIPS codes (\<^verbatim>\<open>04_fix_fips_codes.py\<close>)\<close>

text \<open>
  \<^verbatim>\<open>check_and_fix_fips_codes\<close> reads the county table back from its file, where a code
  may have been read as an integer, and normalises the code column again.
\<close>

definition check_and_fix_fips_codes :: "raw_cell county list \<Rightarrow> string county list" where
  "check_and_fix_fips_codes counties_df =
     map (\<lambda>c. \<lparr>county_name = county_name c, fips_code = normalize_fips (fips_code c),
                state = state c, rural_urban_code = rural_urban_code c,
                urban_influence_code = urban_influence_code c,
                metro_status = metro_status c\<rparr>) counties_df"

text \<open>
  The \<^verbatim>\<open>.str\<close> accessor raises on a column that holds no text: a column of a file that
  has rows and whose cells are all missing is read as numbers.
\<close>

definition str_accessor_ok :: "string option list \<Rightarrow> bool" where
  "str_accessor_ok col = (col = [] \<or> list_ex (\<lambda>v. v \<noteq> None) col)"

text \<open>
  A Python \<^verbatim>\<open>dict\<close> is an association list with distinct keys in insertion order:
  storing under a key that is present replaces its value in place, which is what
  \<open>AList.update\<close> does. \<^verbatim>\<open>dict(zip(keys, values))\<close> stores the pairs from first to
  last. A missing name is a key like any other.
\<close>

type_synonym fips_dict = "(string option \<times> string) list"

definition dict_of :: "('k \<times> 'v) list \<Rightarrow> ('k \<times> 'v) list" where
  "dict_of kvs = foldl (\<lambda>d (k, v). AList.update k v d) [] kvs"

text \<open>
  \<^verbatim>\<open>create_county_name_to_fips_mapping\<close> returns the dictionary; what it prints (the
  number of entries and the first five of them) and the reference file it saves (three
  columns of its input) are determined by the dictionary and the input.
\<close>

definition create_county_name_to_fips_mapping :: "string county list \<Rightarrow> error + fips_dict" where
  "create_county_name_to_fips_mapping counties_df =
     (if \<not> str_accessor_ok (map county_name counties_df) then Inl AttributeError
      else
        let clean_county_names = map (\<lambda>c. map_option clean_county_name (county_name c)) counties_df
        in Inr (dict_of (zip clean_county_names (map fips_code counties_df))))"

text \<open>
  \<^verbatim>\<open>df['fips_code'] = df['clean_county_name'].map(fips_mapping)\<close>: every row is kept
  and gets the code stored under its cleaned name, or a missing code. The saved table has
  the columns of the input and the new one: a row is paired with its code.
\<close>

definition map_fips ::
    "(string \<Rightarrow> string) \<Rightarrow> fips_dict \<Rightarrow> 'a named_row_scheme list
     \<Rightarrow> ('a named_row_scheme \<times> string option) list" where
  "map_fips clean fips_mapping df =
     map (\<lambda>r. (r, map_of fips_mapping (map_option clean (county_name r)))) df"

text \<open>
  The line that reports the mapping success prints \<^verbatim>\<open>mapped_count\<close>,
  \<^verbatim>\<open>total_count\<close> and \<^verbatim>\<open>mapped_count/total_count*100\<close> with one decimal
  (\<^verbatim>\<open>:.1f\<close>). \<open>format_1f\<close> is the number that the printed decimal denotes.
\<close>

record match_report =
  mapped_count :: nat
  total_count :: nat
  percent :: fval

fun format_1f :: "fval \<Rightarrow> fval" where
  "format_1f (Finite x) = Finite (of_int (round_half_even (x * 10)) / 10)"
| "format_1f v = v"

definition int_to_double :: "nat \<Rightarrow> fval" where
  "int_to_double n = round_double (of_nat n)"

definition mapping_success :: "('r \<times> string option) list \<Rightarrow> match_report" where
  "mapping_success df =
     (let mapped = length (filter (\<lambda>(r, fips). fips \<noteq> None) df);
          total = length df
      in \<lparr>mapped_count = mapped, total_count = total,
          percent = format_1f (fmul (fdiv (int_to_double mapped) (int_to_double total)) lit_100)\<rparr>)"

record population_row = yearly_row +
  population :: int


definition add_fips_to_population_data ::
    "fips_dict \<Rightarrow> population_row list
     \<Rightarrow> error + ((population_row \<times> string option) list \<times> match_report)" where
  "add_fips_to_population_data fips_mapping population_df =
     (if \<not> str_accessor_ok (map county_name population_df) then Inl AttributeError
      else
        let population = map_fips clean_population_county_name fips_mapping population_df
        in Inr (population, mapping_success population))"

section \<open>Example tables\<close>


definition zero_price_housing :: "housing_row list" where
  "zero_price_housing =
     [\<lparr>county_name = Some ''Loving County'', year = 2021, RegionID = 9,
       bottom_tier_price = Finite 0, top_tier_price = NaN,
       RegionName = Some ''Loving County'', StateName = Some ''TX'', State = Some ''TX'',
       date = \<lparr>dt_year = 2021, dt_month = 3, dt_day = 31\<rparr>, month = 3\<rparr>]"

definition prices_100_110_99 :: "housing_row list" where
  "prices_100_110_99 = map (\<lambda>(y, b).
      \<lparr>county_name = Some ''Kent County'', year = y, RegionID = 3,
       bottom_tier_price = Finite b, top_tier_price = NaN,
       RegionName = Some ''Kent County'', StateName = Some ''DE'', State = Some ''DE'',
       date = \<lparr>dt_year = y, dt_month = 6, dt_day = 30\<rparr>, month = 6\<rparr>)
     [(2021, 110), (2020, 100), (2022, 99)]"


definition prices_100_missing_110 :: "housing_row list" where
  "prices_100_missing_110 = map (\<lambda>(y, b).
      \<lparr>county_name = Some ''Kent County'', year = y, RegionID = 3,
       bottom_tier_price = b, top_tier_price = Finite 1,
       RegionName = Some ''Kent County'', StateName = Some ''DE'', State = Some ''DE'',
       date = \<lparr>dt_year = y, dt_month = 6, dt_day = 30\<rparr>, month = 6\<rparr>)
     [(2020, Finite 100), (2021, NaN), (2022, Finite 110)]"


definition washington_counties :: "string county list" where
  "washington_counties =
     [\<lparr>county_name = Some ''Washington County'', fips_code = ''01129'', state = Some ''AL'',
       rural_urban_code = IntCell 8, urban_influence_code = IntCell 6, metro_status = IntCell 0\<rparr>,
      \<lparr>county_name = Some ''Washington County'', fips_code = ''05143'', state = Some ''AR'',
       rural_urban_code = IntCell 2, urban_influence_code = IntCell 2, metro_status = IntCell 1\<rparr>]"

definition st_louis_county :: "string county list" where
  "st_louis_county =
     [\<lparr>county_name = Some ''St. Louis County'', fips_code = ''29189'', state = Some ''MO'',
       rural_urban_code = IntCell 1, urban_influence_code = IntCell 1, metro_status = IntCell 1\<rparr>]"

definition st_louis_population :: "population_row list" where
  "st_louis_population =
     [\<lparr>county_name = Some ''.St. Louis County'', year = 2020, population = 1004125\<rparr>]"



text \<open>
  An instance of the date parser for the examples: it accepts \<^verbatim>\<open>YYYY-MM-DD\<close>.
\<close>

definition digit_value :: "char \<Rightarrow> int option" where
  "digit_value c = (if CHR ''0'' \<le> c \<and> c \<le> CHR ''9'' then Some (of_char c - 48) else None)"

definition number_of :: "string \<Rightarrow> int option" where
  "number_of s = map_option (foldl (\<lambda>n d. 10 * n + d) 0) (those (map digit_value s))"

definition iso_date :: "string \<Rightarrow> datetime option" where
  "iso_date s =
     (if length s = 10 \<and> s ! 4 = CHR ''-'' \<and> s ! 7 = CHR ''-''
      then case (number_of (take 4 s), number_of (take 2 (drop 5 s)), number_of (drop 8 s)) of
             (Some y, Some m, Some d) \<Rightarrow> Some \<lparr>dt_year = y, dt_month = m, dt_day = d\<rparr>
           | _ \<Rightarrow> None
      else None)"

definition kent_row :: wide_row where
  "kent_row =
     \<lparr>csv_RegionID = 1, csv_RegionName = Some ''Kent County'', csv_StateName = Some ''DE'',
      csv_State = Some ''DE'', cells = [(''2000-01-31'', Finite 100), (''2000-02-29'', NaN)]\<rparr>"

definition bottom_csv :: wide_table where
  "bottom_csv =
     \<lparr>columns = [''RegionID'', ''SizeRank'', ''RegionName'', ''StateName'', ''State'',
                  ''2000-01-31'', ''2000-02-29''],
      rows =
        [kent_row,
         \<lparr>csv_RegionID = 2, csv_RegionName = Some ''Sussex County'', csv_StateName = Some ''DE'',
          csv_State = Some ''DE'', cells = [(''2000-01-31'', Finite 200), (''2000-02-29'', Finite 210)]\<rparr>]\<rparr>"

definition top_csv :: wide_table where
  "top_csv =
     \<lparr>columns = [''RegionID'', ''SizeRank'', ''RegionName'', ''StateName'', ''State'',
                  ''2000-01-31''],
      rows =
        [\<lparr>csv_RegionID = 2, csv_RegionName = Some ''Sussex County'', csv_StateName = Some ''DE'',
          csv_State = Some ''DE'', cells = [(''2000-01-31'', Finite 500)]\<rparr>,
         \<lparr>csv_RegionID = 3, csv_RegionName = Some ''New Castle County'', csv_StateName = Some ''DE'',
          csv_State = Some ''DE'', cells = [(''2000-01-31'', Finite 900)]\<rparr>]\<rparr>"

section \<open>Facts about the arithmetic\<close>

text \<open>
  The two float literals as fractions: \<open>3602879701896397 / 2 ^ 56\<close> and
  \<open>5404319552844595 / 2 ^ 54\<close>, the binary64 numbers nearest to 0.05 and 0.30.
\<close>

lemma lit_0_05_value: "lit_0_05 = Finite (3602879701896397 / 72057594037927936)"
  by code_simp

lemma lit_0_30_value: "lit_0_30 = Finite (5404319552844595 / 18014398509481984)"
  by code_simp

lemma round_double_not_NaN [simp]: "round_double x \<noteq> NaN"
  by (simp add: round_double_def Let_def)

lemma inf_of_sign_not_NaN [simp]: "inf_of_sign b \<noteq> NaN"
  by (simp add: inf_of_sign_def)

lemma fmul_lit_0_05_NaN: "fmul v lit_0_05 = NaN \<longleftrightarrow> v = NaN"
  by (cases v) (simp_all add: lit_0_05_value)

lemma fdiv_lit_0_30_NaN: "fdiv v lit_0_30 = NaN \<longleftrightarrow> v = NaN"
  by (cases v) (simp_all add: lit_0_30_value)


lemma salary_0: "fdiv (fmul (Finite 0) lit_0_05) lit_0_30 = Finite 0"
  by code_simp

section \<open>Affordability\<close>


text \<open>A group whose monthly prices of a tier are all missing has a missing mean.\<close>

lemma mean_skipna_all_missing: "\<forall>v \<in> set vs. v = NaN \<Longrightarrow> mean_skipna fsum vs = NaN"
  by (simp add: mean_skipna_def Let_def filter_empty_conv)


lemma zero_price_affordability:
  "calculate_affordability_metrics naive_sum zero_price_housing =
   [\<lparr>county_name = Some ''Loving County'', year = 2021, RegionID = 9,
     bottom_tier_price = Finite 0, top_tier_price = NaN,
     bottom_tier_annual_cost = Finite 0, top_tier_annual_cost = NaN,
     bottom_tier_min_salary = Finite 0, top_tier_min_salary = NaN\<rparr>]"
  by code_simp



text \<open>
  C4, as the code has it. A minimum salary is missing exactly when the annual mean price is
  missing. There is no guard on a zero price: a mean price of zero gives a minimum salary
  of \<^verbatim>\<open>0.0\<close>.
\<close>

theorem min_salary_missing_iff_price_missing:
  "\<forall>r \<in> set (calculate_affordability_metrics fsum housing_df).
      (bottom_tier_min_salary r = NaN \<longleftrightarrow> bottom_tier_price r = NaN)
    \<and> (top_tier_min_salary r = NaN \<longleftrightarrow> top_tier_price r = NaN)
    \<and> (bottom_tier_price r = Finite 0 \<longrightarrow> bottom_tier_min_salary r = Finite 0)
    \<and> (top_tier_price r = Finite 0 \<longrightarrow> top_tier_min_salary r = Finite 0)"
  by (auto simp: calculate_affordability_metrics_def affordability_of_def Let_def
      fmul_lit_0_05_NaN fdiv_lit_0_30_NaN salary_0)

theorem min_salary_missing_iff_price_missing_witness:
  "map top_tier_price (calculate_affordability_metrics naive_sum zero_price_housing) = [NaN]
   \<and> map top_tier_min_salary (calculate_affordability_metrics naive_sum zero_price_housing) = [NaN]"
proof -
  have p: "map top_tier_price (calculate_affordability_metrics naive_sum zero_price_housing) = [NaN]"
    by (simp add: zero_price_affordability)
  then obtain r where r: "calculate_affordability_metrics naive_sum zero_price_housing = [r]"
    by (cases "calculate_affordability_metrics naive_sum zero_price_housing") auto
  with p have "top_tier_price r = NaN" by simp
  moreover have "r \<in> set (calculate_affordability_metrics naive_sum zero_price_housing)" using r by simp
  ultimately have "top_tier_min_salary r = NaN"
    using min_salary_missing_iff_price_missing [of naive_sum zero_price_housing] by blast
  with p r show ?thesis by simp
qed

text \<open>
  The claim as written fails on a zero price: the one monthly row of the region has a
  bottom-tier price of zero, the annual mean is zero, and the minimum salary is the number
  zero, not a missing value.
\<close>

theorem zero_price_min_salary_counterexample:
  "map bottom_tier_price (calculate_affordability_metrics naive_sum zero_price_housing) = [Finite 0]
   \<and> map bottom_tier_min_salary (calculate_affordability_metrics naive_sum zero_price_housing) = [Finite 0]
   \<and> Finite 0 \<noteq> NaN"
  by (simp add: zero_price_affordability)

section \<open>Growth\<close>

lemma pct_change_length [simp]: "length (pct_change ffill prev xs) = length xs"
proof (induction xs arbitrary: prev)
  case Nil
  show ?case by simp
next
  case (Cons a xs)
  obtain g v where a: "a = (g, v)" by (cases a)
  show ?case unfolding a by (simp add: Let_def Cons.IH del: fun_upd_apply)
qed

lemma pct_change_nth:
  "i < length xs \<Longrightarrow> pct_change ffill prev xs ! i =
    (let shifted = (case run_prev ffill prev (take i xs) (fst (xs ! i)) of Some p \<Rightarrow> p | None \<Rightarrow> NaN);
         filled = (if ffill \<and> snd (xs ! i) = NaN then shifted else snd (xs ! i))
     in fsub (fdiv filled shifted) lit_1)"
proof (induction xs arbitrary: prev i)
  case Nil
  then show ?case by simp
next
  case (Cons a xs)
  obtain g v where a: "a = (g, v)" by (cases a)
  show ?case
  proof (cases i)
    case 0
    then show ?thesis unfolding a by (simp add: Let_def)
  next
    case (Suc k)
    with Cons.prems have "k < length xs" by simp
    from Cons.IH [OF this] Suc show ?thesis
      unfolding a by (simp add: Let_def del: fun_upd_apply)
  qed
qed

lemma run_prev_append:
  "run_prev ffill prev (ys @ zs) = run_prev ffill (run_prev ffill prev ys) zs"
proof (induction ys arbitrary: prev)
  case Nil
  show ?case by simp
next
  case (Cons a ys)
  obtain g v where a: "a = (g, v)" by (cases a)
  show ?case unfolding a by (simp add: Cons.IH del: fun_upd_apply)
qed

lemma run_prev_absent:
  "\<forall>p \<in> set ys. fst p \<noteq> g \<Longrightarrow> run_prev ffill prev ys g = prev g"
proof (induction ys arbitrary: prev)
  case Nil
  show ?case by simp
next
  case (Cons a ys)
  obtain h v where a: "a = (h, v)" by (cases a)
  from Cons.prems have "h \<noteq> g" and "\<forall>p \<in> set ys. fst p \<noteq> g" unfolding a by auto
  then show ?case unfolding a by (simp add: Cons.IH)
qed

lemma fdiv_NaN_right [simp]: "fdiv x NaN = NaN"
  by (cases x) simp_all

lemma fsub_NaN_left [simp]: "fsub NaN y = NaN"
  by (simp add: fsub_def)

lemma pct_change_first:
  assumes "i < length xs" "\<forall>j < i. fst (xs ! j) \<noteq> fst (xs ! i)"
  shows "pct_change ffill Map.empty xs ! i = NaN"
proof -
  have "\<forall>p \<in> set (take i xs). fst p \<noteq> fst (xs ! i)"
  proof
    fix p assume "p \<in> set (take i xs)"
    then obtain j where "j < i" "j < length xs" "p = xs ! j"
      by (auto simp: in_set_conv_nth)
    with assms(2) show "fst p \<noteq> fst (xs ! i)" by simp
  qed
  then have "run_prev ffill Map.empty (take i xs) (fst (xs ! i)) = None"
    by (simp add: run_prev_absent)
  then show ?thesis using assms(1) by (simp add: pct_change_nth Let_def)
qed

lemma pct_change_next:
  assumes "Suc i < length xs" "fst (xs ! Suc i) = fst (xs ! i)"
    and "ffill \<longrightarrow> snd (xs ! i) \<noteq> NaN"
  shows "pct_change ffill prev xs ! Suc i =
     fsub (fdiv (if ffill \<and> snd (xs ! Suc i) = NaN then snd (xs ! i) else snd (xs ! Suc i)) (snd (xs ! i))) lit_1"
proof -
  have t: "take (Suc i) xs = take i xs @ [(fst (xs ! i), snd (xs ! i))]"
    using assms(1) by (simp add: take_Suc_conv_app_nth)
  have "run_prev ffill prev (take (Suc i) xs) (fst (xs ! i)) = Some (snd (xs ! i))"
    unfolding t run_prev_append run_prev.simps using assms(3) by auto
  then show ?thesis using assms(1,2) by (simp add: pct_change_nth Let_def)
qed

lemma growth_columns_length [simp]: "length (growth_columns ffill a) = length a"
  by (simp add: growth_columns_def Let_def)

lemma growth_columns_nth:
  assumes "i < length a"
  shows "growth_columns ffill a ! i =
     \<lparr>county_name = county_name (a ! i), year = year (a ! i), RegionID = RegionID (a ! i),
      bottom_tier_price = bottom_tier_price (a ! i), top_tier_price = top_tier_price (a ! i),
      bottom_tier_growth = fmul (pct_change ffill Map.empty (map (\<lambda>r. (RegionID r, bottom_tier_price r)) a) ! i) lit_100,
      top_tier_growth = fmul (pct_change ffill Map.empty (map (\<lambda>r. (RegionID r, top_tier_price r)) a) ! i) lit_100\<rparr>"
  using assms by (simp add: growth_columns_def Let_def)

lemma growth_columns_truncate: "map price_row.truncate (growth_columns ffill a) = a"
  by (rule nth_equalityI)
     (simp_all add: growth_columns_nth price_row.defs yearly_row.defs named_row.defs)

lemma growth_100_110_99_ffill: "map bottom_tier_growth (create_annual_price_trends naive_sum True prices_100_110_99) =
   [NaN, Finite (5629499534213125 / 562949953421312), Finite (- 5629499534213119 / 562949953421312)]"
  by code_simp

lemma growth_100_110_99_nofill: "map bottom_tier_growth (create_annual_price_trends naive_sum False prices_100_110_99) =
   [NaN, Finite (5629499534213125 / 562949953421312), Finite (- 5629499534213119 / 562949953421312)]"
  by code_simp



lemma growth_first:
  assumes "i < length a" "\<forall>j < i. RegionID (a ! j) \<noteq> RegionID (a ! i)"
  shows "bottom_tier_growth (growth_columns ffill a ! i) = NaN
       \<and> top_tier_growth (growth_columns ffill a ! i) = NaN"
  using assms by (simp add: growth_columns_nth pct_change_first)

lemma growth_next:
  assumes "Suc i < length a" "RegionID (a ! Suc i) = RegionID (a ! i)"
  shows "(ffill \<longrightarrow> bottom_tier_price (a ! i) \<noteq> NaN) \<longrightarrow>
           bottom_tier_growth (growth_columns ffill a ! Suc i) =
           fmul (fsub (fdiv (if ffill \<and> bottom_tier_price (a ! Suc i) = NaN
                             then bottom_tier_price (a ! i) else bottom_tier_price (a ! Suc i))
                            (bottom_tier_price (a ! i))) lit_1) lit_100"
    and "(ffill \<longrightarrow> top_tier_price (a ! i) \<noteq> NaN) \<longrightarrow>
           top_tier_growth (growth_columns ffill a ! Suc i) =
           fmul (fsub (fdiv (if ffill \<and> top_tier_price (a ! Suc i) = NaN
                             then top_tier_price (a ! i) else top_tier_price (a ! Suc i))
                            (top_tier_price (a ! i))) lit_1) lit_100"
  using assms by (simp_all add: growth_columns_nth pct_change_next)

lemma growth_columns_fields:
  assumes "i < length a"
  shows "RegionID (growth_columns ffill a ! i) = RegionID (a ! i)"
    and "year (growth_columns ffill a ! i) = year (a ! i)"
    and "bottom_tier_price (growth_columns ffill a ! i) = bottom_tier_price (a ! i)"
    and "top_tier_price (growth_columns ffill a ! i) = top_tier_price (a ! i)"
  using assms by (simp_all add: growth_columns_nth)

text \<open>
  C6, as the code has it. The trend table is the annual table in \<^verbatim>\<open>(RegionID, year)\<close>
  order. The first row of each region has a missing growth. A row that follows a row of the
  same region, both prices present, has the growth \<^verbatim>\<open>(current / previous - 1) * 100\<close>,
  each operation rounded to double precision. For annual means 100, 110, 99 of one region
  the growth column is missing, \<^verbatim>\<open>10.000000000000009\<close> and \<^verbatim>\<open>-9.999999999999998\<close>,
  whichever fill method the library applies.
\<close>

theorem growth_computation:
  "(let out = create_annual_price_trends fsum ffill housing_df in
      map price_row.truncate out = sort_key (\<lambda>r. (RegionID r, year r)) (annual_means fsum housing_df)
    \<and> sorted (map (\<lambda>r. (RegionID r, year r)) out)
    \<and> (\<forall>i < length out. (\<forall>j < i. RegionID (out ! j) \<noteq> RegionID (out ! i)) \<longrightarrow>
          bottom_tier_growth (out ! i) = NaN \<and> top_tier_growth (out ! i) = NaN)
    \<and> (\<forall>i. Suc i < length out \<and> RegionID (out ! Suc i) = RegionID (out ! i) \<longrightarrow>
          (bottom_tier_price (out ! i) \<noteq> NaN \<and> bottom_tier_price (out ! Suc i) \<noteq> NaN \<longrightarrow>
             bottom_tier_growth (out ! Suc i) =
               fmul (fsub (fdiv (bottom_tier_price (out ! Suc i)) (bottom_tier_price (out ! i))) lit_1) lit_100)
        \<and> (top_tier_price (out ! i) \<noteq> NaN \<and> top_tier_price (out ! Suc i) \<noteq> NaN \<longrightarrow>
             top_tier_growth (out ! Suc i) =
               fmul (fsub (fdiv (top_tier_price (out ! Suc i)) (top_tier_price (out ! i))) lit_1) lit_100)))
   \<and> map bottom_tier_growth (create_annual_price_trends naive_sum ffill prices_100_110_99) =
       [NaN, Finite (5629499534213125 / 562949953421312), Finite (- 5629499534213119 / 562949953421312)]"
proof -
  define a where "a = sort_key (\<lambda>r. (RegionID r, year r)) (annual_means fsum housing_df)"
  define out where "out = growth_columns ffill a"
  have len: "length out = length a" by (simp add: out_def)
  have 1: "map price_row.truncate out = a"
    by (simp add: out_def growth_columns_truncate)
  have "map (\<lambda>r. (RegionID r, year r)) out = map (\<lambda>r. (RegionID r, year r)) a"
    by (rule nth_equalityI) (simp_all add: out_def growth_columns_fields)
  then have 2: "sorted (map (\<lambda>r. (RegionID r, year r)) out)"
    by (simp add: a_def)
  have 3: "bottom_tier_growth (out ! i) = NaN \<and> top_tier_growth (out ! i) = NaN"
    if "i < length out" "\<forall>j < i. RegionID (out ! j) \<noteq> RegionID (out ! i)" for i
  proof -
    from that have "\<forall>j < i. RegionID (a ! j) \<noteq> RegionID (a ! i)"
      by (simp add: out_def growth_columns_fields)
    with that(1) show ?thesis unfolding out_def by (simp add: growth_first)
  qed
  have 4: "(bottom_tier_price (out ! i) \<noteq> NaN \<and> bottom_tier_price (out ! Suc i) \<noteq> NaN \<longrightarrow>
             bottom_tier_growth (out ! Suc i) =
               fmul (fsub (fdiv (bottom_tier_price (out ! Suc i)) (bottom_tier_price (out ! i))) lit_1) lit_100)
        \<and> (top_tier_price (out ! i) \<noteq> NaN \<and> top_tier_price (out ! Suc i) \<noteq> NaN \<longrightarrow>
             top_tier_growth (out ! Suc i) =
               fmul (fsub (fdiv (top_tier_price (out ! Suc i)) (top_tier_price (out ! i))) lit_1) lit_100)"
    if "Suc i < length out" "RegionID (out ! Suc i) = RegionID (out ! i)" for i
  proof -
    from that have s: "Suc i < length a" and r: "RegionID (a ! Suc i) = RegionID (a ! i)"
      by (simp_all add: out_def growth_columns_fields)
    from s have i: "i < length a" by simp
    show ?thesis
      using growth_next [OF s r, of ffill]
      by (simp add: out_def growth_columns_fields [OF s] growth_columns_fields [OF i])
  qed
  have 5: "map bottom_tier_growth (create_annual_price_trends naive_sum ffill prices_100_110_99) =
       [NaN, Finite (5629499534213125 / 562949953421312), Finite (- 5629499534213119 / 562949953421312)]"
    by (cases ffill) (simp_all add: growth_100_110_99_ffill growth_100_110_99_nofill)
  have "create_annual_price_trends fsum ffill housing_df = out"
    by (simp add: create_annual_price_trends_def out_def a_def)
  with 1 2 3 4 5 show ?thesis
    unfolding Let_def a_def [symmetric] by blast
qed


text \<open>Without forward fill a missing price leaves its own and the next growth missing.\<close>

lemma growth_100_missing_110_nofill: "map bottom_tier_growth (create_annual_price_trends naive_sum False prices_100_missing_110) =
   [NaN, NaN, NaN]"
  by code_simp




lemma regions_100_110_99: "map RegionID (create_annual_price_trends naive_sum True prices_100_110_99) = [3, 3, 3]"
  by code_simp

lemma means_100_110_99: "map bottom_tier_price (create_annual_price_trends naive_sum True prices_100_110_99) =
    [Finite 100, Finite 110, Finite 99]"
  by code_simp



lemma map_eq_3D:
  "map f xs = [a, b, c] \<Longrightarrow> length xs = 3 \<and> f (xs ! 0) = a \<and> f (xs ! Suc 0) = b \<and> f (xs ! Suc (Suc 0)) = c"
  by (cases xs; cases "tl xs"; cases "tl (tl xs)") auto

lemma map_eq_2D:
  "map f xs = [a, b] \<Longrightarrow> length xs = 2 \<and> f (xs ! 0) = a \<and> f (xs ! Suc 0) = b"
  by (cases xs; cases "tl xs") auto

theorem growth_computation_witness:
  "map RegionID (create_annual_price_trends naive_sum True prices_100_110_99) = [3, 3, 3]
   \<and> map bottom_tier_price (create_annual_price_trends naive_sum True prices_100_110_99) =
       [Finite 100, Finite 110, Finite 99]
   \<and> bottom_tier_growth (create_annual_price_trends naive_sum True prices_100_110_99 ! Suc 0) =
       fmul (fsub (fdiv (Finite 110) (Finite 100)) lit_1) lit_100"
proof -
  define out where "out = create_annual_price_trends naive_sum True prices_100_110_99"
  note ids = map_eq_3D [OF regions_100_110_99, folded out_def]
  note prices = map_eq_3D [OF means_100_110_99, folded out_def]
  note T = growth_computation [of naive_sum True prices_100_110_99, unfolded Let_def, folded out_def]
  from T have "\<forall>i. Suc i < length out \<and> RegionID (out ! Suc i) = RegionID (out ! i) \<longrightarrow>
          (bottom_tier_price (out ! i) \<noteq> NaN \<and> bottom_tier_price (out ! Suc i) \<noteq> NaN \<longrightarrow>
             bottom_tier_growth (out ! Suc i) =
               fmul (fsub (fdiv (bottom_tier_price (out ! Suc i)) (bottom_tier_price (out ! i))) lit_1) lit_100)
        \<and> (top_tier_price (out ! i) \<noteq> NaN \<and> top_tier_price (out ! Suc i) \<noteq> NaN \<longrightarrow>
             top_tier_growth (out ! Suc i) =
               fmul (fsub (fdiv (top_tier_price (out ! Suc i)) (top_tier_price (out ! i))) lit_1) lit_100)"
    by (elim conjE)
  from this [rule_format, of 0] ids prices
  have "bottom_tier_growth (out ! Suc 0) = fmul (fsub (fdiv (Finite 110) (Finite 100)) lit_1) lit_100"
    by simp
  then show ?thesis
    using regions_100_110_99 means_100_110_99 by (simp add: out_def)
qed

text \<open>
  The claim as written fails on its own example: the growth column computed for the annual
  means 100, 110, 99 is not missing, \<^verbatim>\<open>10.0\<close>, \<^verbatim>\<open>-10.0\<close>.
\<close>

theorem growth_100_110_99_counterexample:
  "map bottom_tier_price (create_annual_price_trends naive_sum True prices_100_110_99) =
       [Finite 100, Finite 110, Finite 99]
   \<and> map bottom_tier_growth (create_annual_price_trends naive_sum True prices_100_110_99) \<noteq>
       [NaN, Finite 10, Finite (- 10)]
   \<and> map bottom_tier_growth (create_annual_price_trends naive_sum False prices_100_110_99) \<noteq>
       [NaN, Finite 10, Finite (- 10)]"
  by (simp add: means_100_110_99 growth_100_110_99_ffill growth_100_110_99_nofill)



section \<open>FIPS codes\<close>





text \<open>A missing code becomes text as well: the expression does not keep it missing.\<close>

lemma normalize_fips_missing: "normalize_fips Missing = ''00nan''"
  by code_simp








section \<open>County names and the FIPS mapping\<close>

lemma map_of_foldl_update:
  "map_of (foldl (\<lambda>d (k, v). AList.update k v d) d kvs) = map_of d ++ map_of (rev kvs)"
proof (induction kvs arbitrary: d)
  case Nil
  show ?case by simp
next
  case (Cons a kvs)
  obtain k v where a: "a = (k, v)" by (cases a)
  have "map_of (AList.update k v d) ++ map_of (rev kvs) = map_of d ++ (map_of (rev kvs @ [(k, v)]))"
    by (simp add: update_conv' map_add_upd_left fun_eq_iff map_add_def split: option.splits)
  then show ?case unfolding a by (simp add: Cons.IH)
qed

lemma distinct_foldl_update:
  "distinct (map fst d) \<Longrightarrow> distinct (map fst (foldl (\<lambda>d (k, v). AList.update k v d) d kvs))"
proof (induction kvs arbitrary: d)
  case Nil
  then show ?case by simp
next
  case (Cons a kvs)
  obtain k v where a: "a = (k, v)" by (cases a)
  show ?case unfolding a using Cons.prems by (simp add: Cons.IH distinct_update)
qed

lemma map_of_dict_of: "map_of (dict_of kvs) = map_of (rev kvs)"
  by (simp add: dict_of_def map_of_foldl_update)

lemma distinct_dict_of: "distinct (map fst (dict_of kvs))"
  by (simp add: dict_of_def distinct_foldl_update)

lemma keys_dict_of: "set (map fst (dict_of kvs)) = set (map fst kvs)"
proof -
  have "dom (map_of (dict_of kvs)) = dom (map_of (rev kvs))"
    by (simp add: map_of_dict_of)
  then show ?thesis by (simp add: dom_map_of_conv_image_fst)
qed

lemma length_dict_of: "length (dict_of kvs) = card (set (map fst kvs))"
proof -
  have "length (dict_of kvs) = length (map fst (dict_of kvs))" by simp
  also have "\<dots> = card (set (map fst (dict_of kvs)))"
    using distinct_dict_of [of kvs] by (simp only: distinct_card)
  finally show ?thesis by (simp only: keys_dict_of)
qed

lemma map_of_rev_last:
  assumes "i < length kvs" "\<forall>j. i < j \<and> j < length kvs \<longrightarrow> fst (kvs ! j) \<noteq> fst (kvs ! i)"
  shows "map_of (rev kvs) (fst (kvs ! i)) = Some (snd (kvs ! i))"
proof -
  have kvs: "kvs = take i kvs @ kvs ! i # drop (Suc i) kvs"
    using assms(1) by (simp add: id_take_nth_drop)
  have "\<forall>p \<in> set (drop (Suc i) kvs). fst p \<noteq> fst (kvs ! i)"
  proof
    fix p assume "p \<in> set (drop (Suc i) kvs)"
    then obtain n where "n < length kvs - Suc i" "p = kvs ! (Suc i + n)"
      by (auto simp: in_set_conv_nth)
    with assms(2) show "fst p \<noteq> fst (kvs ! i)" by simp
  qed
  then have n: "map_of (rev (drop (Suc i) kvs)) (fst (kvs ! i)) = None"
    by (auto simp: map_of_eq_None_iff image_iff)
  have "map_of (rev kvs) (fst (kvs ! i))
      = map_of (rev (drop (Suc i) kvs) @ (kvs ! i) # rev (take i kvs)) (fst (kvs ! i))"
    by (subst kvs) simp
  also have "\<dots> = Some (snd (kvs ! i))"
    using n by (cases "kvs ! i") (simp add: map_add_def)
  finally show ?thesis .
qed

lemma washington_mapping: "create_county_name_to_fips_mapping washington_counties =
    Inr [(Some ''washington county'', ''05143'')]"
  by code_simp

lemma washington_tail_mapping: "create_county_name_to_fips_mapping (tl washington_counties) =
    Inr [(Some ''washington county'', ''05143'')]"
  by code_simp

lemma st_louis_clean_name: "clean_county_name ''St. Louis County'' = ''st. louis county''"
  by code_simp

lemma st_louis_population_name: "clean_population_county_name ''.St. Louis County'' = ''st louis county''"
  by code_simp

lemma st_louis_mapping: "create_county_name_to_fips_mapping st_louis_county = Inr [(Some ''st. louis county'', ''29189'')]"
  by code_simp

lemma st_louis_population_unmatched: "add_fips_to_population_data [(Some ''st. louis county'', ''29189'')] st_louis_population =
   Inr ([(\<lparr>county_name = Some ''.St. Louis County'', year = 2020, population = 1004125\<rparr>, None)],
        \<lparr>mapped_count = 0, total_count = 1, percent = Finite 0\<rparr>)"
  by code_simp



text \<open>The percentage is printed with one decimal: for 1 of 3 it reads 33.3.\<close>

lemma percent_1_3: "format_1f (fmul (fdiv (int_to_double 1) (int_to_double 3)) lit_100) = Finite (333 / 10)"
  by code_simp

lemma washington_names:
  "map (\<lambda>c. map_option clean_county_name (county_name c)) washington_counties =
     [Some ''washington county'', Some ''washington county'']"
  by code_simp

lemma washington_fips: "map fips_code washington_counties = [''01129'', ''05143'']"
  by code_simp

text \<open>
  C5, as the code has it. Whenever the name column can be cleaned, the function returns a
  dictionary and raises nothing. The dictionary has one entry for each distinct cleaned
  name, and a name maps to the FIPS code of the last county record that has it: an earlier
  record with the same cleaned name and another code is overwritten. Nothing in the result
  tells that this happened.
\<close>

theorem county_mapping_last_wins:
  "str_accessor_ok (map county_name counties_df) \<longrightarrow>
     (\<exists>d. create_county_name_to_fips_mapping counties_df = Inr d
        \<and> distinct (map fst d)
        \<and> length d = card (set (map (\<lambda>c. map_option clean_county_name (county_name c)) counties_df))
        \<and> (\<forall>i < length counties_df.
              (\<forall>j. i < j \<and> j < length counties_df \<longrightarrow>
                   map_option clean_county_name (county_name (counties_df ! j))
                 \<noteq> map_option clean_county_name (county_name (counties_df ! i)))
              \<longrightarrow> map_of d (map_option clean_county_name (county_name (counties_df ! i)))
                  = Some (fips_code (counties_df ! i))))"
proof
  assume ok: "str_accessor_ok (map county_name counties_df)"
  define kvs where "kvs = zip (map (\<lambda>c. map_option clean_county_name (county_name c)) counties_df)
                              (map fips_code counties_df)"
  have len: "length kvs = length counties_df" by (simp add: kvs_def)
  have nth: "kvs ! i = (map_option clean_county_name (county_name (counties_df ! i)), fips_code (counties_df ! i))"
    if "i < length counties_df" for i
    using that by (simp add: kvs_def)
  have keys: "map fst kvs = map (\<lambda>c. map_option clean_county_name (county_name c)) counties_df"
    by (simp add: kvs_def)
  have res: "create_county_name_to_fips_mapping counties_df = Inr (dict_of kvs)"
    using ok by (simp add: create_county_name_to_fips_mapping_def kvs_def Let_def)
  have last: "map_of (dict_of kvs) (map_option clean_county_name (county_name (counties_df ! i)))
                  = Some (fips_code (counties_df ! i))"
    if i: "i < length counties_df"
      and later: "\<forall>j. i < j \<and> j < length counties_df \<longrightarrow>
                   map_option clean_county_name (county_name (counties_df ! j))
                 \<noteq> map_option clean_county_name (county_name (counties_df ! i))" for i
  proof -
    have "\<forall>j. i < j \<and> j < length kvs \<longrightarrow> fst (kvs ! j) \<noteq> fst (kvs ! i)"
      using later i by (simp add: len nth)
    from map_of_rev_last [OF _ this] i show ?thesis
      by (simp add: len nth map_of_dict_of)
  qed
  show "\<exists>d. create_county_name_to_fips_mapping counties_df = Inr d
        \<and> distinct (map fst d)
        \<and> length d = card (set (map (\<lambda>c. map_option clean_county_name (county_name c)) counties_df))
        \<and> (\<forall>i < length counties_df.
              (\<forall>j. i < j \<and> j < length counties_df \<longrightarrow>
                   map_option clean_county_name (county_name (counties_df ! j))
                 \<noteq> map_option clean_county_name (county_name (counties_df ! i)))
              \<longrightarrow> map_of d (map_option clean_county_name (county_name (counties_df ! i)))
                  = Some (fips_code (counties_df ! i)))"
    using res distinct_dict_of [of kvs] length_dict_of [of kvs] last
    by (intro exI [of _ "dict_of kvs"]) (simp add: keys)
qed

theorem county_mapping_last_wins_witness:
  "str_accessor_ok (map county_name washington_counties)
   \<and> (\<exists>d. create_county_name_to_fips_mapping washington_counties = Inr d
          \<and> length d = 1
          \<and> map_of d (Some ''washington county'') = Some ''05143'')"
proof -
  have ok: "str_accessor_ok (map county_name washington_counties)"
    by code_simp
  note n = map_eq_2D [OF washington_names] map_eq_2D [OF washington_fips]
  from county_mapping_last_wins [of washington_counties] ok obtain d where
    d: "create_county_name_to_fips_mapping washington_counties = Inr d"
    and l: "length d = card (set (map (\<lambda>c. map_option clean_county_name (county_name c)) washington_counties))"
    and w: "\<forall>i < length washington_counties.
              (\<forall>j. i < j \<and> j < length washington_counties \<longrightarrow>
                   map_option clean_county_name (county_name (washington_counties ! j))
                 \<noteq> map_option clean_county_name (county_name (washington_counties ! i)))
              \<longrightarrow> map_of d (map_option clean_county_name (county_name (washington_counties ! i)))
                  = Some (fips_code (washington_counties ! i))"
    by blast
  have a: "Suc 0 < length washington_counties" using n by simp
  have b: "\<forall>j. Suc 0 < j \<and> j < length washington_counties \<longrightarrow>
                   map_option clean_county_name (county_name (washington_counties ! j))
                 \<noteq> map_option clean_county_name (county_name (washington_counties ! Suc 0))"
  proof (intro allI impI)
    fix j assume "Suc 0 < j \<and> j < length washington_counties"
    moreover have "length washington_counties = 2" using n by simp
    ultimately have False by arith
    then show "map_option clean_county_name (county_name (washington_counties ! j))
                 \<noteq> map_option clean_county_name (county_name (washington_counties ! Suc 0))" ..
  qed
  from w a b have "map_of d (map_option clean_county_name (county_name (washington_counties ! Suc 0)))
                  = Some (fips_code (washington_counties ! Suc 0))"
    by blast
  with n have "map_of d (Some ''washington county'') = Some ''05143''"
    by auto
  moreover from l have "length d = 1" by (simp add: washington_names)
  ultimately show ?thesis using ok d by blast
qed

text \<open>
  The claim as written fails: two records with the codes 01129 and 05143 share the cleaned
  name, and the function returns what it returns for the second record alone.
\<close>

theorem county_name_collision_counterexample:
  "map fips_code washington_counties = [''01129'', ''05143'']
   \<and> create_county_name_to_fips_mapping washington_counties = Inr [(Some ''washington county'', ''05143'')]
   \<and> create_county_name_to_fips_mapping (tl washington_counties) = Inr [(Some ''washington county'', ''05143'')]"
  by (simp add: washington_fips washington_mapping washington_tail_mapping)

lemma map_fips_rows [simp]: "map fst (map_fips clean m df) = df"
  by (simp add: map_fips_def comp_def)









text \<open>
  C9 at a name with a period. The normaliser of the mapping keys (and of the two housing
  tables) keeps the period of \<^verbatim>\<open>St. Louis County\<close>; the normaliser of the population
  table removes it, so the population row of that county finds no key and gets no code.
\<close>

theorem period_kept_on_mapping_path:
  "clean_county_name ''St. Louis County'' = ''st. louis county''
   \<and> create_county_name_to_fips_mapping st_louis_county = Inr [(Some ''st. louis county'', ''29189'')]
   \<and> clean_population_county_name ''.St. Louis County'' = ''st louis county''
   \<and> add_fips_to_population_data [(Some ''st. louis county'', ''29189'')] st_louis_population =
       Inr ([(\<lparr>county_name = Some ''.St. Louis County'', year = 2020, population = 1004125\<rparr>, None)],
            \<lparr>mapped_count = 0, total_count = 1, percent = Finite 0\<rparr>)"
  by (simp add: st_louis_clean_name st_louis_population_name st_louis_mapping st_louis_population_unmatched)

lemma lower_char_period: "lower_char c = CHR ''.'' \<Longrightarrow> c = CHR ''.''"
proof (cases "is_upper c")
  case False
  assume "lower_char c = CHR ''.''"
  with False show ?thesis by (simp add: lower_char_def)
next
  case True
  assume eq: "lower_char c = CHR ''.''"
  from True have r: "65 \<le> (of_char c :: nat)" "(of_char c :: nat) \<le> 90"
    by (simp_all add: is_upper_def less_eq_char_def)
  from eq True have "char_of (of_char c + (32 :: nat)) = CHR ''.''"
    by (simp add: lower_char_def)
  then have "(of_char (char_of (of_char c + (32 :: nat))) :: nat) = of_char CHR ''.''"
    by (rule arg_cong)
  then have "(of_char c + 32) mod 256 = (46 :: nat)"
    by simp
  moreover from r have "(of_char c + 32) mod 256 = (of_char c + 32 :: nat)"
    by simp
  ultimately have "(of_char c :: nat) + 32 = 46" by simp
  with r have False by linarith
  then show ?thesis ..
qed

lemma set_strip: "set (strip s) \<subseteq> set s"
proof -
  have "set (dropWhile is_space (rev (dropWhile is_space s))) \<subseteq> set (rev (dropWhile is_space s))"
    by (auto dest: set_dropWhileD)
  also have "\<dots> \<subseteq> set s"
    by (auto dest: set_dropWhileD)
  finally show ?thesis by (simp add: strip_def)
qed

text \<open>The population path does produce names without a period.\<close>

lemma population_name_period_free: "CHR ''.'' \<notin> set (clean_population_county_name n)"
proof
  assume "CHR ''.'' \<in> set (clean_population_county_name n)"
  then have "CHR ''.'' \<in> set (lower (remove_periods n))"
    using set_strip unfolding clean_population_county_name_def by blast
  then obtain c where c: "c \<in> set (remove_periods n)" "lower_char c = CHR ''.''"
    by (auto simp: lower_def)
  from c(2) have "c = CHR ''.''" by (rule lower_char_period)
  with c(1) show False by (simp add: remove_periods_def)
qed

section \<open>The outer join of the two price tiers\<close>








text \<open>
  The whole function on the example: Kent County is only in the bottom table, February only
  in the bottom table's columns, New Castle County only in the top table.
\<close>

lemma reshape_bottom_top_example:
  "reshape_housing_data iso_date bottom_csv top_csv = Inr
     [\<lparr>county_name = Some ''Kent County'', year = 2000, RegionID = 1,
       bottom_tier_price = Finite 100, top_tier_price = NaN,
       RegionName = Some ''Kent County'', StateName = Some ''DE'', State = Some ''DE'',
       date = \<lparr>dt_year = 2000, dt_month = 1, dt_day = 31\<rparr>, month = 1\<rparr>,
      \<lparr>county_name = Some ''Sussex County'', year = 2000, RegionID = 2,
       bottom_tier_price = Finite 200, top_tier_price = Finite 500,
       RegionName = Some ''Sussex County'', StateName = Some ''DE'', State = Some ''DE'',
       date = \<lparr>dt_year = 2000, dt_month = 1, dt_day = 31\<rparr>, month = 1\<rparr>,
      \<lparr>county_name = Some ''Sussex County'', year = 2000, RegionID = 2,
       bottom_tier_price = Finite 210, top_tier_price = NaN,
       RegionName = Some ''Sussex County'', StateName = Some ''DE'', State = Some ''DE'',
       date = \<lparr>dt_year = 2000, dt_month = 2, dt_day = 29\<rparr>, month = 2\<rparr>,
      \<lparr>county_name = None, year = 2000, RegionID = 3,
       bottom_tier_price = NaN, top_tier_price = Finite 900,
       RegionName = None, StateName = None, State = None,
       date = \<lparr>dt_year = 2000, dt_month = 1, dt_day = 31\<rparr>, month = 1\<rparr>]"
  by code_simp










end
